theory Spec2Isabelle
  imports Complex_Main "HOL-Library.Sublist" "HOL-Library.Multiset" "HOL-Library.Word"
begin

section \<open>JavaScript values seen by the form component\<close>

text \<open>
  The front end is the React component \<^verbatim>\<open>App\<close> of \<^verbatim>\<open>frontend/src/App.js\<close>. Its submit
  handler talks to two endpoints, decodes a JSON answer and writes four pieces of React
  state. The values it can hold are the ones JSON decoding produces, plus \<^verbatim>\<open>undefined\<close>
  (a missing property). Numbers are never computed with; they are carried as reals.

  A JavaScript string is a sequence of 16-bit code units (UTF-16), in which a surrogate
  may stand alone. The strings that come from the user or from the network are modelled
  so. The string literals of the source are all ASCII; they are written as HOL strings,
  and \<open>ascii\<close> gives the JavaScript string of one where it becomes a value.
\<close>

type_synonym code_unit = "16 word"

type_synonym js_string = "code_unit list"

definition ascii :: "string \<Rightarrow> js_string" where
  "ascii s = map (\<lambda>c. of_nat (of_char c)) s"

datatype jsval =
    JUndefined
  | JNull
  | JBool bool
  | JNum real
  | JStr js_string
  | JArr "jsval list"
  | JObj "(js_string \<times> jsval) list"

text \<open>
  JavaScript's \<^verbatim>\<open>ToBoolean\<close>, as used by \<^verbatim>\<open>if (v)\<close> and \<^verbatim>\<open>v && ...\<close>. JSON has no NaN,
  so zero is the only falsy number.
\<close>

fun truthy :: "jsval \<Rightarrow> bool" where
  "truthy JUndefined = False"
| "truthy JNull = False"
| "truthy (JBool b) = b"
| "truthy (JNum n) = (n \<noteq> 0)"
| "truthy (JStr s) = (s \<noteq> [])"
| "truthy (JArr _) = True"
| "truthy (JObj _) = True"

text \<open>The exceptions that can be thrown inside the handler.\<close>

datatype js_exn =
    TypeError string
  | SyntaxError string
  | OtherError string

text \<open>
  \<^verbatim>\<open>data.answer\<close>: reading a property of \<^verbatim>\<open>null\<close> or \<^verbatim>\<open>undefined\<close> throws a TypeError; an
  object yields its own property of that name or \<^verbatim>\<open>undefined\<close>; every other value has no
  property called \<^verbatim>\<open>answer\<close> and yields \<^verbatim>\<open>undefined\<close>.
\<close>

fun get_answer :: "jsval \<Rightarrow> js_exn + jsval" where
  "get_answer JUndefined = Inl (TypeError ''Cannot read properties of undefined'')"
| "get_answer JNull = Inl (TypeError ''Cannot read properties of null'')"
| "get_answer (JObj props) =
     (case map_of props (ascii ''answer'') of Some v \<Rightarrow> Inr v | None \<Rightarrow> Inr JUndefined)"
| "get_answer _ = Inr JUndefined"

text \<open>A \<^verbatim>\<open>File\<close> object picked in the file input.\<close>

record js_file =
  file_name :: js_string
  file_bytes :: string

text \<open>
  The \<^verbatim>\<open>file\<close> state is \<^verbatim>\<open>null\<close> initially; \<^verbatim>\<open>handleFileChange\<close> stores
  \<^verbatim>\<open>e.target.files[0]\<close>, which is a \<^verbatim>\<open>File\<close>, or \<^verbatim>\<open>undefined\<close> when the selection is empty.
\<close>

datatype file_state = FNull | FUndefined | FFile js_file

fun file_truthy :: "file_state \<Rightarrow> bool" where
  "file_truthy FNull = False"
| "file_truthy FUndefined = False"
| "file_truthy (FFile _) = True"

text \<open>The loose comparison \<^verbatim>\<open>file == null\<close>, true of \<^verbatim>\<open>null\<close> and \<^verbatim>\<open>undefined\<close> only.\<close>

fun loosely_null :: "file_state \<Rightarrow> bool" where
  "loosely_null FNull = True"
| "loosely_null FUndefined = True"
| "loosely_null (FFile _) = False"

section \<open>Requests\<close>

datatype form_value = FormFile js_file | FormString string

text \<open>
  \<^verbatim>\<open>FormData.append(name, value)\<close> stores a \<^verbatim>\<open>File\<close> as it is and any other value as its
  string form.
\<close>

fun form_entry :: "file_state \<Rightarrow> form_value" where
  "form_entry (FFile f) = FormFile f"
| "form_entry FNull = FormString ''null''"
| "form_entry FUndefined = FormString ''undefined''"

datatype req_body =
    FormData "(string \<times> form_value) list"
  | TextBody js_string

record request =
  url :: string
  "method" :: string
  headers :: "(string \<times> string) list"
  body :: req_body

text \<open>
  \<^verbatim>\<open>JSON.stringify\<close> on an object literal whose property values are strings, the only
  shape the handler passes. A string is quoted as ECMAScript's \<^verbatim>\<open>QuoteJSONString\<close> does,
  code point by code point: the double quote, the backslash and the control characters
  with a short form are escaped by it, every other control character and every
  surrogate that is not part of a pair is written as a backslash, \<^verbatim>\<open>u\<close> and four
  lower-case hexadecimal digits, and everything else, a surrogate pair included, is
  copied.
\<close>

definition hex_digit :: "nat \<Rightarrow> code_unit" where
  "hex_digit d =
     (if d mod 16 < 10 then of_nat (0x30 + d mod 16) else of_nat (0x57 + d mod 16))"

definition unicode_escape :: "code_unit \<Rightarrow> js_string" where
  "unicode_escape c =
     [0x5C, 0x75, hex_digit (unat c div 4096), hex_digit (unat c div 256),
      hex_digit (unat c div 16), hex_digit (unat c)]"

definition is_leading_surrogate :: "code_unit \<Rightarrow> bool" where
  "is_leading_surrogate c = (0xD800 \<le> c \<and> c \<le> 0xDBFF)"

definition is_trailing_surrogate :: "code_unit \<Rightarrow> bool" where
  "is_trailing_surrogate c = (0xDC00 \<le> c \<and> c \<le> 0xDFFF)"

text \<open>One code unit that is not half of a surrogate pair.\<close>

definition quote_unit :: "code_unit \<Rightarrow> js_string" where
  "quote_unit c =
     (if c = 0x08 then [0x5C, 0x62]
      else if c = 0x09 then [0x5C, 0x74]
      else if c = 0x0A then [0x5C, 0x6E]
      else if c = 0x0C then [0x5C, 0x66]
      else if c = 0x0D then [0x5C, 0x72]
      else if c = 0x22 then [0x5C, 0x22]
      else if c = 0x5C then [0x5C, 0x5C]
      else if c < 0x20 \<or> is_leading_surrogate c \<or> is_trailing_surrogate c
        then unicode_escape c
      else [c])"

fun quote_units :: "js_string \<Rightarrow> js_string" where
  "quote_units [] = []"
| "quote_units [c] = quote_unit c"
| "quote_units (c # d # cs) =
     (if is_leading_surrogate c \<and> is_trailing_surrogate d then c # d # quote_units cs
      else quote_unit c @ quote_units (d # cs))"

definition quote_json_string :: "js_string \<Rightarrow> js_string" where
  "quote_json_string s = 0x22 # quote_units s @ [0x22]"

fun stringify_props :: "(js_string \<times> js_string) list \<Rightarrow> js_string" where
  "stringify_props [] = []"
| "stringify_props [(k, v)] = quote_json_string k @ 0x3A # quote_json_string v"
| "stringify_props ((k, v) # kvs) =
     quote_json_string k @ 0x3A # quote_json_string v @ 0x2C # stringify_props kvs"

definition JSON_stringify :: "(js_string \<times> js_string) list \<Rightarrow> js_string" where
  "JSON_stringify props = 0x7B # stringify_props props @ [0x7D]"

subsection \<open>Reading a JSON text\<close>

text \<open>
  What a JSON text says is what a JSON reader makes of it. The reader below follows the
  JSON grammar on the texts \<^verbatim>\<open>JSON.stringify\<close> writes for such objects: an object of
  members \<^verbatim>\<open>"name":"value"\<close> separated by commas, without white space. In a string it
  accepts the escapes of the grammar (a backslash followed by a double quote, a
  backslash, a slash, one of \<^verbatim>\<open>b f n r t\<close>, or \<^verbatim>\<open>u\<close> and four hexadecimal digits of
  either case) and refuses a raw control character. Every other text it refuses.
\<close>

definition hex_value :: "code_unit \<Rightarrow> nat option" where
  "hex_value c =
     (if 0x30 \<le> c \<and> c \<le> 0x39 then Some (unat c - 0x30)
      else if 0x61 \<le> c \<and> c \<le> 0x66 then Some (unat c - 0x57)
      else if 0x41 \<le> c \<and> c \<le> 0x46 then Some (unat c - 0x37)
      else None)"

definition hex4 ::
  "code_unit \<Rightarrow> code_unit \<Rightarrow> code_unit \<Rightarrow> code_unit \<Rightarrow> code_unit option" where
  "hex4 h1 h2 h3 h4 =
     (case (hex_value h1, hex_value h2, hex_value h3, hex_value h4) of
        (Some a, Some b, Some c, Some d) \<Rightarrow> Some (of_nat (((a * 16 + b) * 16 + c) * 16 + d))
      | _ \<Rightarrow> None)"

definition unescape :: "code_unit \<Rightarrow> code_unit option" where
  "unescape e =
     (if e = 0x22 then Some 0x22
      else if e = 0x5C then Some 0x5C
      else if e = 0x2F then Some 0x2F
      else if e = 0x62 then Some 0x08
      else if e = 0x66 then Some 0x0C
      else if e = 0x6E then Some 0x0A
      else if e = 0x72 then Some 0x0D
      else if e = 0x74 then Some 0x09
      else None)"

definition cons_read ::
  "code_unit \<Rightarrow> (js_string \<times> js_string) option \<Rightarrow> (js_string \<times> js_string) option" where
  "cons_read c res = (case res of None \<Rightarrow> None | Some (t, rest) \<Rightarrow> Some (c # t, rest))"

text \<open>
  The characters of a string after its opening quote: the string read, and the text
  left after the closing quote.
\<close>

fun read_string_tail :: "js_string \<Rightarrow> (js_string \<times> js_string) option" where
  "read_string_tail [] = None"
| "read_string_tail (c # cs) =
     (if c = 0x22 then Some ([], cs)
      else if c = 0x5C then
        (case cs of
           [] \<Rightarrow> None
         | e # es \<Rightarrow>
             if e = 0x75 then
               (case es of
                  h1 # h2 # h3 # h4 # rest \<Rightarrow>
                    (case hex4 h1 h2 h3 h4 of
                       None \<Rightarrow> None
                     | Some u \<Rightarrow> cons_read u (read_string_tail rest))
                | _ \<Rightarrow> None)
             else
               (case unescape e of
                  None \<Rightarrow> None
                | Some u \<Rightarrow> cons_read u (read_string_tail es)))
      else if c < 0x20 then None
      else cons_read c (read_string_tail cs))"

definition read_string :: "js_string \<Rightarrow> (js_string \<times> js_string) option" where
  "read_string cs =
     (case cs of
        [] \<Rightarrow> None
      | c # rest \<Rightarrow> if c = 0x22 then read_string_tail rest else None)"

definition read_member :: "js_string \<Rightarrow> ((js_string \<times> js_string) \<times> js_string) option" where
  "read_member cs =
     (case read_string cs of
        None \<Rightarrow> None
      | Some (k, rest) \<Rightarrow>
          (case rest of
             [] \<Rightarrow> None
           | c # rest1 \<Rightarrow>
               if c = 0x3A then
                 (case read_string rest1 of
                    None \<Rightarrow> None
                  | Some (v, rest2) \<Rightarrow> Some ((k, v), rest2))
               else None))"

text \<open>
  The members up to the closing brace. The first argument bounds the number of members
  read; the length of the text is always enough, a member being longer than one unit.
\<close>

fun read_members ::
  "nat \<Rightarrow> js_string \<Rightarrow> ((js_string \<times> js_string) list \<times> js_string) option" where
  "read_members 0 cs = None"
| "read_members (Suc n) cs =
     (case read_member cs of
        None \<Rightarrow> None
      | Some (m, rest) \<Rightarrow>
          (case rest of
             [] \<Rightarrow> None
           | c # rest1 \<Rightarrow>
               if c = 0x7D then Some ([m], rest1)
               else if c = 0x2C then
                 (case read_members n rest1 of
                    None \<Rightarrow> None
                  | Some (ms, rest2) \<Rightarrow> Some (m # ms, rest2))
               else None))"

definition JSON_parse_object :: "js_string \<Rightarrow> (js_string \<times> js_string) list option" where
  "JSON_parse_object cs =
     (case cs of
        [] \<Rightarrow> None
      | c # rest \<Rightarrow>
          if c \<noteq> 0x7B then None
          else if rest = [0x7D] then Some []
          else (case read_members (length rest) rest of
                  Some (ms, []) \<Rightarrow> Some ms
                | _ \<Rightarrow> None))"

section \<open>Component state, promises and the event log\<close>

text \<open>The four \<^verbatim>\<open>useState\<close> cells of \<^verbatim>\<open>App\<close>.\<close>

record app_state =
  question :: js_string
  response :: jsval
  loading :: bool
  "file" :: file_state

definition initial_state :: app_state where
  "initial_state = \<lparr>question = [], response = JStr [], loading = False, file = FNull\<rparr>"

text \<open>
  What awaiting a promise gives: it is fulfilled with a value, rejected with an
  exception, or never settles (then the code after the \<^verbatim>\<open>await\<close> never runs).
\<close>

datatype 'a promise = Fulfilled 'a | Rejected js_exn | Pending

text \<open>
  A response as the handler uses it: its status, and what \<^verbatim>\<open>response.json()\<close> gives.
  \<^verbatim>\<open>fetch\<close> rejects on a network failure only; an HTTP error status is a fulfilled promise.
\<close>

record http_response =
  status :: nat
  json_result :: "jsval promise"

type_synonym network = "request \<Rightarrow> http_response promise"

text \<open>What the handler does, in the order it does it.\<close>

datatype event =
    PreventDefault
  | SetLoading bool
  | SetResponse jsval
  | FetchIssued request
  | FetchFulfilled string nat
  | FetchRejected string js_exn
  | JsonFulfilled jsval
  | JsonRejected js_exn
  | ConsoleError js_exn

text \<open>
  The world a handler runs in: the React state with every update enqueued so far
  applied, in call order (React applies the queued updates of a component in the order
  of the setter calls), and the log of events, each with the state at that moment.
\<close>

record world =
  react :: app_state
  trace :: "(event \<times> app_state) list"

definition emit :: "event \<Rightarrow> world \<Rightarrow> world" where
  "emit ev w = w\<lparr>trace := trace w @ [(ev, react w)]\<rparr>"

section \<open>Statements: normal completion, exceptions and suspension\<close>

datatype 'a outcome = Normal 'a | Throw js_exn | Suspend

type_synonym 'a step = "world \<Rightarrow> 'a outcome \<times> world"

definition done_step :: "'a \<Rightarrow> 'a step" where
  "done_step x = (\<lambda>w. (Normal x, w))"

text \<open>Sequencing: the rest runs only after a normal completion.\<close>

definition then_step :: "'a step \<Rightarrow> ('a \<Rightarrow> 'b step) \<Rightarrow> 'b step" where
  "then_step m f = (\<lambda>w.
     case m w of
       (Normal x, w1) \<Rightarrow> f x w1
     | (Throw e, w1) \<Rightarrow> (Throw e, w1)
     | (Suspend, w1) \<Rightarrow> (Suspend, w1))"

text \<open>
  \<^verbatim>\<open>try { body } catch (error) { handler } finally { fin }\<close>: the handler runs when the body
  throws; \<^verbatim>\<open>fin\<close> runs after either, and an exception of the handler propagates after
  it unless \<^verbatim>\<open>fin\<close> itself completes abruptly. Nothing runs after a suspension.
\<close>

definition try_catch_finally ::
  "unit step \<Rightarrow> (js_exn \<Rightarrow> unit step) \<Rightarrow> unit step \<Rightarrow> unit step" where
  "try_catch_finally blk handler fin = (\<lambda>w.
     case blk w of
       (Normal _, w1) \<Rightarrow> fin w1
     | (Suspend, w1) \<Rightarrow> (Suspend, w1)
     | (Throw e, w1) \<Rightarrow>
         (case handler e w1 of
            (Normal _, w2) \<Rightarrow> fin w2
          | (Suspend, w2) \<Rightarrow> (Suspend, w2)
          | (Throw e2, w2) \<Rightarrow>
              (case fin w2 of
                 (Normal _, w3) \<Rightarrow> (Throw e2, w3)
               | (Throw e3, w3) \<Rightarrow> (Throw e3, w3)
               | (Suspend, w3) \<Rightarrow> (Suspend, w3))))"

subsection \<open>Primitive statements\<close>

definition preventDefault :: "unit step" where
  "preventDefault = (\<lambda>w. (Normal (), emit PreventDefault w))"

definition setLoading :: "bool \<Rightarrow> unit step" where
  "setLoading b = (\<lambda>w. (Normal (), emit (SetLoading b) (w\<lparr>react := (react w)\<lparr>loading := b\<rparr>\<rparr>)))"

definition setResponse :: "jsval \<Rightarrow> unit step" where
  "setResponse v = (\<lambda>w. (Normal (), emit (SetResponse v) (w\<lparr>react := (react w)\<lparr>response := v\<rparr>\<rparr>)))"

definition console_error :: "js_exn \<Rightarrow> unit step" where
  "console_error e = (\<lambda>w. (Normal (), emit (ConsoleError e) w))"

text \<open>\<^verbatim>\<open>await fetch(url, options)\<close>.\<close>

definition await_fetch :: "network \<Rightarrow> request \<Rightarrow> http_response step" where
  "await_fetch net req = (\<lambda>w.
     let w1 = emit (FetchIssued req) w in
     case net req of
       Fulfilled r \<Rightarrow> (Normal r, emit (FetchFulfilled (url req) (status r)) w1)
     | Rejected e \<Rightarrow> (Throw e, emit (FetchRejected (url req) e) w1)
     | Pending \<Rightarrow> (Suspend, w1))"

text \<open>\<^verbatim>\<open>await response.json()\<close>.\<close>

definition await_json :: "http_response \<Rightarrow> jsval step" where
  "await_json r = (\<lambda>w.
     case json_result r of
       Fulfilled v \<Rightarrow> (Normal v, emit (JsonFulfilled v) w)
     | Rejected e \<Rightarrow> (Throw e, emit (JsonRejected e) w)
     | Pending \<Rightarrow> (Suspend, w))"

text \<open>The property read \<^verbatim>\<open>data.answer\<close> as a statement.\<close>

definition read_answer :: "jsval \<Rightarrow> jsval step" where
  "read_answer v = (\<lambda>w. case get_answer v of Inl e \<Rightarrow> (Throw e, w) | Inr a \<Rightarrow> (Normal a, w))"

section \<open>The component, first version (lines 4 to 122)\<close>

definition add_document_url :: string where
  "add_document_url = ''http://localhost:8000/add-document''"

definition query_url :: string where
  "query_url = ''http://localhost:8000/query''"

definition error_message :: js_string where
  "error_message = ascii ''Sorry, there was an error processing your request.''"

text \<open>
  \<^verbatim>\<open>handleSubmit\<close>, lines 10 to 41. The handler is a closure over the \<^verbatim>\<open>question\<close> and
  \<^verbatim>\<open>file\<close> of the render it belongs to, here the state \<open>s\<close>; it never reads the
  state it writes. \<^verbatim>\<open>e\<close> is React's event object, whose \<^verbatim>\<open>preventDefault\<close> does not throw.
  Inside the \<^verbatim>\<open>try\<close> block the local \<^verbatim>\<open>response\<close> is the fetched response, not the state.
\<close>

definition handleSubmit :: "network \<Rightarrow> app_state \<Rightarrow> unit step" where
  "handleSubmit net s =
     then_step preventDefault (\<lambda>_.
     then_step (setLoading True) (\<lambda>_.
     try_catch_finally
       (then_step
          (if file_truthy (file s) then
             then_step
               (await_fetch net
                  \<lparr>url = ''http://localhost:8000/add-document'',
                   method = ''POST'',
                   headers = [],
                   body = FormData [(''doc'', form_entry (file s))]\<rparr>)
               (\<lambda>_. done_step ())
           else done_step ())
          (\<lambda>_.
       then_step
          (await_fetch net
             \<lparr>url = ''http://localhost:8000/query'',
              method = ''POST'',
              headers = [(''Content-Type'', ''application/json'')],
              body = TextBody (JSON_stringify [(ascii ''question'', question s)])\<rparr>)
          (\<lambda>response.
       then_step (await_json response) (\<lambda>data.
       then_step (read_answer data) (\<lambda>answer.
       setResponse answer)))))
       (\<lambda>error.
          then_step (console_error error) (\<lambda>_.
          setResponse (JStr (ascii ''Sorry, there was an error processing your request.''))))
       (setLoading False)))"

text \<open>\<^verbatim>\<open>handleFileChange\<close>, lines 43 to 45; \<open>files\<close> is \<^verbatim>\<open>e.target.files\<close>.\<close>

definition handleFileChange :: "js_file list \<Rightarrow> app_state \<Rightarrow> app_state" where
  "handleFileChange files s =
     s\<lparr>file := (case files of [] \<Rightarrow> FUndefined | f # _ \<Rightarrow> FFile f)\<rparr>"

text \<open>One invocation of the handler from the state \<open>s\<close>, with an empty log.\<close>

definition submit :: "network \<Rightarrow> app_state \<Rightarrow> unit outcome \<times> world" where
  "submit net s = handleSubmit net s \<lparr>react = s, trace = []\<rparr>"

text \<open>The inline \<^verbatim>\<open>onChange\<close> of the textarea, line 68: \<^verbatim>\<open>setQuestion(e.target.value)\<close>.\<close>

definition question_onChange :: "js_string \<Rightarrow> app_state \<Rightarrow> app_state" where
  "question_onChange v s = s\<lparr>question := v\<rparr>"

section \<open>The component, second version (lines 127 to 245)\<close>

text \<open>
  The file holds a second copy of the component after the first. Its definitions are
  translated from their own lines, independently of the first version.
\<close>

text \<open>The \<^verbatim>\<open>useState\<close> initial values, lines 128 to 131.\<close>

definition initial_state_v2 :: app_state where
  "initial_state_v2 = \<lparr>question = [], response = JStr [], loading = False, file = FNull\<rparr>"

text \<open>\<^verbatim>\<open>handleSubmit\<close>, lines 133 to 164.\<close>

definition handleSubmit_v2 :: "network \<Rightarrow> app_state \<Rightarrow> unit step" where
  "handleSubmit_v2 net s =
     then_step preventDefault (\<lambda>_.
     then_step (setLoading True) (\<lambda>_.
     try_catch_finally
       (then_step
          (if file_truthy (file s) then
             then_step
               (await_fetch net
                  \<lparr>url = ''http://localhost:8000/add-document'',
                   method = ''POST'',
                   headers = [],
                   body = FormData [(''doc'', form_entry (file s))]\<rparr>)
               (\<lambda>_. done_step ())
           else done_step ())
          (\<lambda>_.
       then_step
          (await_fetch net
             \<lparr>url = ''http://localhost:8000/query'',
              method = ''POST'',
              headers = [(''Content-Type'', ''application/json'')],
              body = TextBody (JSON_stringify [(ascii ''question'', question s)])\<rparr>)
          (\<lambda>response.
       then_step (await_json response) (\<lambda>data.
       then_step (read_answer data) (\<lambda>answer.
       setResponse answer)))))
       (\<lambda>error.
          then_step (console_error error) (\<lambda>_.
          setResponse (JStr (ascii ''Sorry, there was an error processing your request.''))))
       (setLoading False)))"

text \<open>\<^verbatim>\<open>handleFileChange\<close>, lines 166 to 168.\<close>

definition handleFileChange_v2 :: "js_file list \<Rightarrow> app_state \<Rightarrow> app_state" where
  "handleFileChange_v2 files s =
     s\<lparr>file := (case files of [] \<Rightarrow> FUndefined | f # _ \<Rightarrow> FFile f)\<rparr>"

text \<open>The inline \<^verbatim>\<open>onChange\<close> of the textarea, line 191.\<close>

definition question_onChange_v2 :: "js_string \<Rightarrow> app_state \<Rightarrow> app_state" where
  "question_onChange_v2 v s = s\<lparr>question := v\<rparr>"

definition submit_v2 :: "network \<Rightarrow> app_state \<Rightarrow> unit outcome \<times> world" where
  "submit_v2 net s = handleSubmit_v2 net s \<lparr>react = s, trace = []\<rparr>"

section \<open>What the two versions render\<close>

text \<open>
  The JSX a render returns, as a tree. An attribute is a string literal, a number, a
  boolean, a string of the state or one of the component's handlers; a child is an element, a text, a fragment
  or the value of an expression in braces. In an attribute string a line break with the
  indentation after it counts as one space.
\<close>

datatype handler_ref = HandleSubmit | HandleFileChange | QuestionOnChange

datatype attr =
    StrAttr string
  | ValueAttr js_string
  | NumAttr nat
  | BoolAttr bool
  | HandlerAttr handler_ref

datatype node =
    Elem string "(string \<times> attr) list" "node list"
  | TextNode string
  | ExprNode jsval
  | Fragment "node list"

text \<open>
  The render of the first version, lines 47 to 121. \<open>trim\<close> stands for
  \<^verbatim>\<open>String.prototype.trim\<close>.
\<close>

definition App :: "(js_string \<Rightarrow> js_string) \<Rightarrow> app_state \<Rightarrow> node" where
  "App trim s =
   Elem ''div'' [(''className'', StrAttr ''min-h-screen bg-gray-50'')]
    [Elem ''div'' [(''className'', StrAttr ''max-w-4xl mx-auto py-8 px-4 sm:px-6 lg:px-8'')]
      [Elem ''div'' [(''className'', StrAttr ''text-center mb-8'')]
        [Elem ''h1'' [(''className'', StrAttr ''text-3xl font-bold text-gray-900'')]
           [TextNode ''Bank Support Assistant''],
         Elem ''p'' [(''className'', StrAttr ''mt-2 text-gray-600'')]
           [TextNode ''Ask any questions about our banking services'']],
       Elem ''div'' [(''className'', StrAttr ''bg-white rounded-lg shadow-lg p-6'')]
        [Elem ''form''
           [(''onSubmit'', HandlerAttr HandleSubmit), (''className'', StrAttr ''space-y-4'')]
           [Elem ''div'' []
             [Elem ''label''
                [(''htmlFor'', StrAttr ''question''),
                 (''className'', StrAttr ''block text-sm font-medium text-gray-700'')]
                [TextNode ''Your Question''],
              Elem ''div'' [(''className'', StrAttr ''mt-1'')]
                [Elem ''textarea''
                   [(''id'', StrAttr ''question''),
                    (''name'', StrAttr ''question''),
                    (''rows'', NumAttr 4),
                    (''className'', StrAttr
                      ''shadow-sm focus:ring-blue-500 focus:border-blue-500 block w-full sm:text-sm border-gray-300 rounded-md''),
                    (''value'', ValueAttr (question s)),
                    (''onChange'', HandlerAttr QuestionOnChange),
                    (''placeholder'', StrAttr ''Type your question here...'')]
                   []]],
            Elem ''div'' []
             [Elem ''label''
                [(''className'', StrAttr ''block text-sm font-medium text-gray-700'')]
                [TextNode ''Upload Document (Optional)''],
              Elem ''div'' [(''className'', StrAttr ''mt-1 flex items-center'')]
                [Elem ''input''
                   [(''type'', StrAttr ''file''),
                    (''onChange'', HandlerAttr HandleFileChange),
                    (''className'', StrAttr
                      ''block w-full text-sm text-gray-500 file:mr-4 file:py-2 file:px-4 file:rounded-md file:border-0 file:text-sm file:font-semibold file:bg-blue-50 file:text-blue-700 hover:file:bg-blue-100'')]
                   []]],
            Elem ''div'' [(''className'', StrAttr ''flex justify-end'')]
             [Elem ''button''
                [(''type'', StrAttr ''submit''),
                 (''disabled'', BoolAttr (loading s \<or> trim (question s) = [])),
                 (''className'', StrAttr
                   ''inline-flex items-center px-4 py-2 border border-transparent text-sm font-medium rounded-md shadow-sm text-white bg-blue-600 hover:bg-blue-700 focus:outline-none focus:ring-2 focus:ring-offset-2 focus:ring-blue-500 disabled:opacity-50'')]
                [if loading s then TextNode ''Processing...''
                 else Fragment
                   [Elem ''PaperAirplaneIcon'' [(''className'', StrAttr ''h-5 w-5 mr-2'')] [],
                    TextNode ''Submit Question'']]]],
         (if truthy (response s) then
            Elem ''div'' [(''className'', StrAttr ''mt-6'')]
             [Elem ''h2'' [(''className'', StrAttr ''text-lg font-medium text-gray-900 mb-2'')]
                [TextNode ''Response''],
              Elem ''div'' [(''className'', StrAttr ''bg-gray-50 rounded-lg p-4'')]
                [Elem ''p'' [(''className'', StrAttr ''text-gray-700 whitespace-pre-wrap'')]
                   [ExprNode (response s)]]]
          else ExprNode (response s))]]]"

text \<open>The render of the second version, lines 170 to 244.\<close>

definition App_v2 :: "(js_string \<Rightarrow> js_string) \<Rightarrow> app_state \<Rightarrow> node" where
  "App_v2 trim s =
   Elem ''div'' [(''className'', StrAttr ''min-h-screen bg-gray-50'')]
    [Elem ''div'' [(''className'', StrAttr ''max-w-4xl mx-auto py-12 px-4 sm:px-6 lg:px-8'')]
      [Elem ''div'' [(''className'', StrAttr ''text-center mb-10'')]
        [Elem ''h1'' [(''className'', StrAttr ''text-4xl font-bold text-gray-900 font-serif'')]
           [TextNode ''Bank Support Assistant''],
         Elem ''p'' [(''className'', StrAttr ''mt-3 text-lg text-gray-600'')]
           [TextNode ''Ask any questions about our banking services'']],
       Elem ''div'' [(''className'', StrAttr ''bg-white rounded-lg shadow-xl p-8'')]
        [Elem ''form''
           [(''onSubmit'', HandlerAttr HandleSubmit), (''className'', StrAttr ''space-y-6'')]
           [Elem ''div'' []
             [Elem ''label''
                [(''htmlFor'', StrAttr ''question''),
                 (''className'', StrAttr ''block text-sm font-medium text-gray-700 mb-2'')]
                [TextNode ''Your Question''],
              Elem ''div'' [(''className'', StrAttr ''mt-1'')]
                [Elem ''textarea''
                   [(''id'', StrAttr ''question''),
                    (''name'', StrAttr ''question''),
                    (''rows'', NumAttr 4),
                    (''className'', StrAttr
                      ''shadow-sm focus:ring-blue-500 focus:border-blue-500 block w-full sm:text-sm border-gray-300 rounded-md p-4 font-sans text-base''),
                    (''value'', ValueAttr (question s)),
                    (''onChange'', HandlerAttr QuestionOnChange),
                    (''placeholder'', StrAttr ''Type your question here...'')]
                   []]],
            Elem ''div'' []
             [Elem ''label''
                [(''className'', StrAttr ''block text-sm font-medium text-gray-700 mb-2'')]
                [TextNode ''Upload Document (Optional)''],
              Elem ''div'' [(''className'', StrAttr ''mt-1 flex items-center'')]
                [Elem ''input''
                   [(''type'', StrAttr ''file''),
                    (''onChange'', HandlerAttr HandleFileChange),
                    (''className'', StrAttr
                      ''block w-full text-sm text-gray-500 file:mr-4 file:py-2 file:px-4 file:rounded-md file:border-0 file:text-sm file:font-semibold file:bg-blue-50 file:text-blue-700 hover:file:bg-blue-100'')]
                   []]],
            Elem ''div'' [(''className'', StrAttr ''flex justify-end'')]
             [Elem ''button''
                [(''type'', StrAttr ''submit''),
                 (''disabled'', BoolAttr (loading s \<or> trim (question s) = [])),
                 (''className'', StrAttr
                   ''inline-flex items-center px-6 py-3 border border-transparent text-base font-medium rounded-md shadow-sm text-white bg-blue-600 hover:bg-blue-700 focus:outline-none focus:ring-2 focus:ring-offset-2 focus:ring-blue-500 disabled:opacity-50 transition-colors duration-200'')]
                [if loading s then TextNode ''Processing...''
                 else Fragment
                   [Elem ''PaperAirplaneIcon'' [(''className'', StrAttr ''h-5 w-5 mr-2'')] [],
                    TextNode ''Submit Question'']]]],
         (if truthy (response s) then
            Elem ''div'' [(''className'', StrAttr ''mt-8'')]
             [Elem ''h2'' [(''className'', StrAttr ''text-xl font-medium text-gray-900 mb-3'')]
                [TextNode ''Response''],
              Elem ''div'' [(''className'', StrAttr ''bg-gray-50 rounded-lg p-6'')]
                [Elem ''p''
                   [(''className'', StrAttr
                      ''text-gray-700 whitespace-pre-wrap text-base leading-relaxed'')]
                   [ExprNode (response s)]]]
          else ExprNode (response s))]]]"

text \<open>A tree without its presentation classes.\<close>

fun strip_class :: "node \<Rightarrow> node" where
  "strip_class (Elem tag attrs children) =
     Elem tag (filter (\<lambda>kv. fst kv \<noteq> ''className'') attrs) (map strip_class children)"
| "strip_class (Fragment children) = Fragment (map strip_class children)"
| "strip_class (TextNode t) = TextNode t"
| "strip_class (ExprNode v) = ExprNode v"

section \<open>Reading a log\<close>

definition events :: "world \<Rightarrow> event list" where
  "events w = map fst (trace w)"

fun is_rejection :: "event \<Rightarrow> bool" where
  "is_rejection (FetchRejected _ _) = True"
| "is_rejection (JsonRejected _) = True"
| "is_rejection _ = False"

fun is_fetch :: "event \<Rightarrow> bool" where
  "is_fetch (FetchIssued _) = True"
| "is_fetch (FetchFulfilled _ _) = True"
| "is_fetch (FetchRejected _ _) = True"
| "is_fetch _ = False"

fun is_network :: "event \<Rightarrow> bool" where
  "is_network (JsonFulfilled _) = True"
| "is_network (JsonRejected _) = True"
| "is_network ev = is_fetch ev"

text \<open>
  The requests in flight after a sequence of events: issued, and neither fulfilled nor
  rejected yet. They are named by their URL.
\<close>

fun track :: "event \<Rightarrow> string list \<Rightarrow> string list" where
  "track (FetchIssued req) ps = url req # ps"
| "track (FetchFulfilled u _) ps = remove1 u ps"
| "track (FetchRejected u _) ps = remove1 u ps"
| "track _ ps = ps"

definition in_flight :: "event list \<Rightarrow> string list" where
  "in_flight es = fold track es []"

fun issues :: "string \<Rightarrow> event \<Rightarrow> bool" where
  "issues u (FetchIssued req) = (url req = u)"
| "issues u _ = False"

fun fulfils :: "string \<Rightarrow> event \<Rightarrow> bool" where
  "fulfils u (FetchFulfilled v _) = (v = u)"
| "fulfils u _ = False"

text \<open>The requests an invocation issued to one URL, in order.\<close>

fun request_to :: "string \<Rightarrow> event \<Rightarrow> request list" where
  "request_to u (FetchIssued req) = (if url req = u then [req] else [])"
| "request_to u _ = []"

definition requests_to :: "string \<Rightarrow> world \<Rightarrow> request list" where
  "requests_to u w = concat (map (request_to u) (events w))"

text \<open>What an invocation uploaded: the form entries of its add-document requests.\<close>

fun form_values :: "req_body \<Rightarrow> form_value list" where
  "form_values (FormData entries) = map snd entries"
| "form_values (TextBody _) = []"

definition uploads :: "world \<Rightarrow> form_value list" where
  "uploads w = concat (map (\<lambda>req. form_values (body req)) (requests_to add_document_url w))"

text \<open>The two requests of the handler, for reading a log.\<close>

definition add_document_request :: "file_state \<Rightarrow> request" where
  "add_document_request f =
     \<lparr>url = add_document_url, method = ''POST'', headers = [],
      body = FormData [(''doc'', form_entry f)]\<rparr>"

definition query_request :: "js_string \<Rightarrow> request" where
  "query_request q =
     \<lparr>url = query_url, method = ''POST'',
      headers = [(''Content-Type'', ''application/json'')],
      body = TextBody (JSON_stringify [(ascii ''question'', q)])\<rparr>"

fun is_fulfilled :: "'a promise \<Rightarrow> bool" where
  "is_fulfilled (Fulfilled _) = True"
| "is_fulfilled _ = False"

text \<open>Every promise the network hands out settles.\<close>

definition settles :: "network \<Rightarrow> bool" where
  "settles net =
     (\<forall>req. net req \<noteq> Pending \<and> (\<forall>r. net req = Fulfilled r \<longrightarrow> json_result r \<noteq> Pending))"

text \<open>The \<^verbatim>\<open>disabled\<close> attribute of the submit button, lines 95 and 218.\<close>

definition submit_disabled :: "(js_string \<Rightarrow> js_string) \<Rightarrow> app_state \<Rightarrow> bool" where
  "submit_disabled trim s = (loading s \<or> trim (question s) = [])"

section \<open>A session of the form\<close>

text \<open>
  What the user can do to the form: submit it, type in the question box or change the file
  input. A session returns the world each submission ended in.
\<close>

datatype ui_event =
    Submit network
  | QuestionInput js_string
  | FileInput "js_file list"

fun is_file_input :: "ui_event \<Rightarrow> bool" where
  "is_file_input (FileInput _) = True"
| "is_file_input _ = False"

fun session :: "ui_event list \<Rightarrow> app_state \<Rightarrow> world list" where
  "session [] s = []"
| "session (Submit net # es) s =
     (let w = snd (submit net s) in w # session es (react w))"
| "session (QuestionInput q # es) s = session es (question_onChange q s)"
| "session (FileInput files # es) s = session es (handleFileChange files s)"

section \<open>Sample inputs\<close>

definition sample_file :: js_file where
  "sample_file =
     \<lparr>file_name = ascii ''faq.txt'',
      file_bytes = ''Mobile banking can be activated via the app settings menu.''\<rparr>"

definition sample_state :: app_state where
  "sample_state =
     \<lparr>question = ascii ''How can I activate mobile banking?'', response = JStr [],
      loading = False, file = FFile sample_file\<rparr>"

definition network_ok :: network where
  "network_ok = (\<lambda>req. Fulfilled
     \<lparr>status = 200,
      json_result =
        Fulfilled (JObj [(ascii ''answer'', JStr (ascii ''Use the app settings menu.''))])\<rparr>)"

definition network_down :: network where
  "network_down = (\<lambda>req. Rejected (TypeError ''Failed to fetch''))"

text \<open>
  A question with double quotes, a line feed and a lone surrogate: the text
  \<^verbatim>\<open>","top_k":"99\<close> followed by the code units \<^verbatim>\<open>0x000A\<close> and \<^verbatim>\<open>0xD800\<close>.
\<close>

definition sample_tricky_question :: js_string where
  \<open>sample_tricky_question = ascii ''","top_k":"99'' @ [0x0A, 0xD800]\<close>

definition sample_tricky_state :: app_state where
  "sample_tricky_state =
     \<lparr>question = sample_tricky_question, response = JStr [], loading = False, file = FNull\<rparr>"

section \<open>The service behind the two endpoints\<close>

text \<open>
  The service the form posts to is described by the specification only; its code is not
  among the sources. The definitions of this section follow the specification's sentences.
\<close>

subsection \<open>Query\<close>

text \<open>
  Modelled from the spec: the body of a query request as the service receives it, decoded
  from JSON; the service's code is missing. A form upload is not a query.
\<close>

definition decoded_body :: "req_body \<Rightarrow> (js_string \<times> js_string) list option" where
  "decoded_body b = (case b of TextBody t \<Rightarrow> JSON_parse_object t | FormData _ \<Rightarrow> None)"

text \<open>
  Modelled from the spec: the Query of section 3, the question text and an optional top-k
  parameter with a fixed default; the service's code is missing. The spec names neither
  the parameter nor the default, so the name \<open>k_name\<close>, the default and the reading
  \<open>read_k\<close> of a value that was sent are parameters. Of members with the same name the
  last one counts, as in a decoded JSON object.
\<close>

definition effective_k ::
  "nat \<Rightarrow> js_string \<Rightarrow> (js_string \<Rightarrow> nat) \<Rightarrow> (js_string \<times> js_string) list \<Rightarrow> nat" where
  "effective_k default_k k_name read_k props =
     (case map_of (rev props) k_name of None \<Rightarrow> default_k | Some v \<Rightarrow> read_k v)"

subsection \<open>Vector index\<close>

text \<open>
  Modelled from the spec: the Index Snapshot of section 3, the embedded chunks in the
  order they were inserted; the index's code is missing. Embeddings \<open>'e\<close> and chunks
  \<open>'c\<close> are left abstract, and so is the similarity metric, of which the spec asks
  only that it is fixed: \<open>sim q e\<close> is the similarity score of the embedding \<open>e\<close> to the
  query vector \<open>q\<close>, larger meaning more similar. Scores are of any linearly ordered
  type.
\<close>

type_synonym ('e, 'c) snapshot = "('e \<times> 'c) list"

text \<open>
  Modelled from the spec: the (Chunk, similarity score) pairs of the Retrieval Result of
  section 3, for every chunk of a snapshot, in insertion order; the index's code is
  missing.
\<close>

definition scored ::
  "('e \<Rightarrow> 'e \<Rightarrow> 's) \<Rightarrow> ('e, 'c) snapshot \<Rightarrow> 'e \<Rightarrow> ('c \<times> 's) list" where
  "scored sim snap q = map (\<lambda>(e, c). (c, sim q e)) snap"

text \<open>
  Modelled from the spec: the ranking of section 4.3, most similar first, ties broken by
  original chunk insertion order. A pair is put in front of the first ranked pair whose
  score is not larger, so it stays in front of the later-inserted pairs of equal score.
\<close>

fun rank_insert :: "('c \<times> 's::linorder) \<Rightarrow> ('c \<times> 's) list \<Rightarrow> ('c \<times> 's) list" where
  "rank_insert x [] = [x]"
| "rank_insert x (y # ys) =
     (if snd y \<le> snd x then x # y # ys else y # rank_insert x ys)"

text \<open>
  Modelled from the spec: the whole snapshot ranked, most similar first (section 4.3);
  the chunk inserted first is put in last, in front of its equals.
\<close>

fun rank :: "('c \<times> 's::linorder) list \<Rightarrow> ('c \<times> 's) list" where
  "rank [] = []"
| "rank (x # xs) = rank_insert x (rank xs)"

text \<open>
  Modelled from the spec: \<^verbatim>\<open>search(snapshot, query vector, k)\<close> of section 4.3, the
  \<open>k\<close> nearest chunks with their scores, \<open>k\<close> clamped to the available chunk count; the
  index's code is missing.
\<close>

definition search ::
  "('e \<Rightarrow> 'e \<Rightarrow> 's::linorder) \<Rightarrow> ('e, 'c) snapshot \<Rightarrow> 'e \<Rightarrow> nat \<Rightarrow> ('c \<times> 's) list" where
  "search sim snap q k = take (min k (length snap)) (rank (scored sim snap q))"

text \<open>
  Modelled from the spec: scores non-increasing by position (section 8).
\<close>

definition non_increasing :: "'s::linorder list \<Rightarrow> bool" where
  "non_increasing ss = sorted_wrt (\<lambda>a b. b \<le> a) ss"

subsection \<open>Sample inputs\<close>

definition sample_metric :: "int \<Rightarrow> int \<Rightarrow> int" where
  "sample_metric q e = - \<bar>q - e\<bar>"

definition sample_snapshot :: "(int, string) snapshot" where
  "sample_snapshot = [(1, ''a''), (5, ''b''), (3, ''c''), (1, ''d''), (2, ''e'')]"

section \<open>Facts shared by the proofs\<close>

lemmas step_defs =
  try_catch_finally_def then_step_def done_step_def preventDefault_def setLoading_def
  setResponse_def console_error_def await_fetch_def await_json_def read_answer_def emit_def

lemmas request_defs =
  add_document_request_def query_request_def add_document_url_def query_url_def

lemmas sample_defs = sample_file_def sample_state_def network_ok_def network_down_def

lemma all_prefixes_iff: "(\<forall>p. prefix p xs \<longrightarrow> P p) \<longleftrightarrow> list_all P (prefixes xs)"
  by (auto simp: list_all_iff)

lemma submit_query_requests:
  assumes "submit net s = (r, w)"
  shows "requests_to query_url w =
          (if file_truthy (file s) \<and> \<not> is_fulfilled (net (add_document_request (file s)))
           then [] else [query_request (question s)])"
  using assms
  unfolding submit_def handleSubmit_def step_defs events_def requests_to_def
  by (auto simp: Let_def request_defs split: if_splits promise.splits sum.splits)

lemma submit_file_unchanged:
  "file (react (snd (submit net s))) = file s"
  unfolding submit_def handleSubmit_def step_defs
  by (auto simp: Let_def split: if_splits promise.splits sum.splits)

lemma submit_trace_file_unchanged:
  "(ev, st) \<in> set (trace (snd (submit net s))) \<Longrightarrow> file st = file s"
  unfolding submit_def handleSubmit_def step_defs
  by (auto simp: Let_def split: if_splits promise.splits sum.splits)

lemma submit_uploads:
  "file s = FFile f \<Longrightarrow> uploads (snd (submit net s)) = [FormFile f]"
  unfolding submit_def handleSubmit_def step_defs uploads_def requests_to_def events_def
  by (auto simp: Let_def add_document_url_def split: if_splits promise.splits sum.splits)

lemma session_same_file:
  "file s = FFile f \<Longrightarrow> \<not> list_ex is_file_input es \<Longrightarrow> w \<in> set (session es s) \<Longrightarrow>
     uploads w = [FormFile f] \<and> file (react w) = FFile f"
proof (induction es s rule: session.induct)
  case (1 s)
  then show ?case by simp
next
  case (2 net es s)
  then show ?case
    by (auto simp: Let_def submit_uploads submit_file_unchanged)
next
  case (3 q es s)
  then show ?case by (simp add: question_onChange_def)
next
  case (4 files es s)
  then show ?case by simp
qed

section \<open>Quoting and reading JSON strings\<close>

lemma hex_digit_cases:
  "d mod 16 = k \<Longrightarrow> k < 16 \<Longrightarrow> hex_value (hex_digit d) = Some k"
proof -
  assume d: "d mod 16 = k" and "k < 16"
  have "k = 0 \<or> k = 1 \<or> k = 2 \<or> k = 3 \<or> k = 4 \<or> k = 5 \<or> k = 6 \<or> k = 7
      \<or> k = 8 \<or> k = 9 \<or> k = 10 \<or> k = 11 \<or> k = 12 \<or> k = 13 \<or> k = 14 \<or> k = 15"
    using \<open>k < 16\<close> by presburger
  then show ?thesis
    using d by (elim disjE) (simp_all add: hex_digit_def hex_value_def)
qed

lemma hex_value_hex_digit: "hex_value (hex_digit d) = Some (d mod 16)"
  by (rule hex_digit_cases) simp_all

lemma hex_digits_value:
  assumes "n < 65536"
  shows "((n div 4096 mod 16 * 16 + n div 256 mod 16) * 16 + n div 16 mod 16) * 16 + n mod 16
           = (n::nat)"
proof -
  define q1 where "q1 = n div 16"
  define q2 where "q2 = q1 div 16"
  define q3 where "q3 = q2 div 16"
  have d2: "n div 256 = q2" and d3: "n div 4096 = q3"
    by (simp_all add: q1_def q2_def q3_def div_mult2_eq)
  from assms have "q3 < 16"
    unfolding d3 [symmetric] by simp
  then have m3: "q3 mod 16 = q3"
    by simp
  define r0 where "r0 = n mod 16"
  define r1 where "r1 = q1 mod 16"
  define r2 where "r2 = q2 mod 16"
  have e1: "16 * q1 + r0 = n"
    by (simp add: q1_def r0_def)
  have e2: "16 * q2 + r1 = q1"
    by (simp add: q2_def r1_def)
  have e3: "16 * q3 + r2 = q2"
    by (simp add: q3_def r2_def)
  have "((q3 * 16 + r2) * 16 + r1) * 16 + r0 = 16 * (16 * (16 * q3 + r2) + r1) + r0"
    by (simp add: algebra_simps)
  also have "\<dots> = n"
    by (simp only: e3 e2 e1)
  finally show ?thesis
    unfolding d2 d3 m3 r0_def r1_def r2_def q1_def [symmetric] .
qed

lemma hex4_unicode_escape:
  "hex4 (hex_digit (unat c div 4096)) (hex_digit (unat c div 256))
        (hex_digit (unat c div 16)) (hex_digit (unat c)) = Some c"
proof -
  have "unat c < 65536"
    using unsigned_less [of c] by simp
  then have digits: "((unat c div 4096 mod 16 * 16 + unat c div 256 mod 16) * 16
      + unat c div 16 mod 16) * 16 + unat c mod 16 = unat c"
    by (rule hex_digits_value)
  have unit_again: "(of_nat (unat c) :: code_unit) = c"
    by simp
  show ?thesis
    unfolding hex4_def hex_value_hex_digit
    by (simp only: prod.case option.case digits unit_again)
qed

lemma read_unicode_escape:
  "read_string_tail (unicode_escape c @ cs) = cons_read c (read_string_tail cs)"
  by (simp add: unicode_escape_def hex4_unicode_escape)

lemma read_quote_unit:
  "read_string_tail (quote_unit c @ cs) = cons_read c (read_string_tail cs)"
  by (simp add: quote_unit_def read_unicode_escape unescape_def)

lemma surrogate_plain:
  "is_leading_surrogate c \<or> is_trailing_surrogate c \<Longrightarrow> c \<noteq> 0x22 \<and> c \<noteq> 0x5C \<and> \<not> c < 0x20"
  by (auto simp: is_leading_surrogate_def is_trailing_surrogate_def word_le_nat_alt
        word_less_nat_alt)

lemma read_quote_units:
  "read_string_tail (quote_units s @ 0x22 # rest) = Some (s, rest)"
proof (induction s rule: quote_units.induct)
  case 1
  show ?case by simp
next
  case (2 c)
  show ?case by (simp add: read_quote_unit cons_read_def)
next
  case (3 c d cs)
  show ?case
  proof (cases "is_leading_surrogate c \<and> is_trailing_surrogate d")
    case True
    with "3.IH"(1) [OF True] surrogate_plain [of c] surrogate_plain [of d] show ?thesis
      by (simp add: cons_read_def)
  next
    case False
    then have "quote_units (c # d # cs) = quote_unit c @ quote_units (d # cs)"
      by (simp only: quote_units.simps False if_False)
    with "3.IH"(2) [OF False] show ?thesis
      by (simp add: read_quote_unit cons_read_def del: quote_units.simps)
  qed
qed

lemma read_quoted: "read_string (quote_json_string s @ rest) = Some (s, rest)"
  by (simp add: read_string_def quote_json_string_def read_quote_units)

lemma read_member_quoted:
  "read_member (quote_json_string k @ 0x3A # quote_json_string v @ rest) = Some ((k, v), rest)"
  by (simp add: read_member_def read_quoted)

lemma read_members_stringify:
  "props \<noteq> [] \<Longrightarrow> length props \<le> n \<Longrightarrow>
     read_members n (stringify_props props @ 0x7D # rest) = Some (props, rest)"
proof (induction props arbitrary: n rule: stringify_props.induct)
  case 1
  then show ?case by simp
next
  case (2 k v)
  then obtain m where "n = Suc m" by (cases n) auto
  then show ?case by (simp add: read_member_quoted)
next
  case (3 k v p ps)
  then obtain m where n: "n = Suc m" and "length (p # ps) \<le> m" by (cases n) auto
  with "3.IH" [of m]
  have "read_members m (stringify_props (p # ps) @ 0x7D # rest) = Some (p # ps, rest)"
    by simp
  with n show ?case by (simp add: read_member_quoted)
qed

lemma length_stringify_props: "length props \<le> length (stringify_props props)"
  by (induction props rule: stringify_props.induct) (simp_all add: quote_json_string_def)

lemma stringify_props_not_brace: "props \<noteq> [] \<Longrightarrow> stringify_props props @ [0x7D] \<noteq> [0x7D]"
  by (cases props rule: stringify_props.cases) (simp_all add: quote_json_string_def)

lemma JSON_parse_stringify: "JSON_parse_object (JSON_stringify props) = Some props"
proof (cases "props = []")
  case True
  then show ?thesis by (simp add: JSON_parse_object_def JSON_stringify_def)
next
  case False
  define printed where "printed = stringify_props props @ [0x7D]"
  have "length props \<le> length printed"
    using length_stringify_props [of props] by (simp add: printed_def)
  with False have "read_members (length printed) printed = Some (props, [])"
    unfolding printed_def by (rule read_members_stringify)
  moreover have "printed \<noteq> [0x7D]"
    unfolding printed_def using False by (rule stringify_props_not_brace)
  moreover have "JSON_stringify props = 0x7B # printed"
    by (simp add: JSON_stringify_def printed_def)
  ultimately show ?thesis
    by (simp add: JSON_parse_object_def)
qed

lemma quote_question_key: \<open>quote_json_string (ascii ''question'') = ascii ''"question"''\<close>
  by (simp add: quote_json_string_def quote_unit_def ascii_def is_leading_surrogate_def
      is_trailing_surrogate_def)

lemma stringify_question:
  \<open>JSON_stringify [(ascii ''question'', q)] =
     ascii ''{"question":'' @ quote_json_string q @ ascii ''}''\<close>
  by (simp add: JSON_stringify_def quote_question_key) (simp add: ascii_def)

section \<open>Query-time errors\<close>

text \<open>
  C1. Whenever a fetch or the JSON decoding of the query response throws during an
  invocation of \<^verbatim>\<open>handleSubmit\<close>, the response state ends as the fixed apology string and
  the handler completes normally: no exception leaves it.
\<close>

theorem handleSubmit_error_fallback:
  assumes "submit net s = (r, w)"
    and "\<exists>ev \<in> set (events w). is_rejection ev"
  shows "response (react w) = JStr error_message \<and> r = Normal ()"
  using assms
  unfolding submit_def handleSubmit_def step_defs events_def error_message_def
  by (auto simp: Let_def split: if_splits promise.splits sum.splits)

theorem handleSubmit_error_fallback_witness:
  "(\<exists>ev \<in> set (events (snd (submit network_down sample_state))). is_rejection ev)
   \<and> response (react (snd (submit network_down sample_state))) = JStr error_message
   \<and> fst (submit network_down sample_state) = Normal ()"
proof -
  have h: "\<exists>ev \<in> set (events (snd (submit network_down sample_state))). is_rejection ev"
    by (simp add: submit_def handleSubmit_def step_defs events_def sample_defs)
  show ?thesis
    using h handleSubmit_error_fallback [OF prod.collapse [symmetric] h] by blast
qed

section \<open>Order of the two requests\<close>

text \<open>
  C2. In every invocation of \<^verbatim>\<open>handleSubmit\<close> with a non-null file state (one that is
  not \<^verbatim>\<open>== null\<close>, so neither \<^verbatim>\<open>null\<close> nor \<^verbatim>\<open>undefined\<close>), the first request is the POST
  of the file to the add-document endpoint; at no moment are the add-document request
  and the query request in flight together; and whenever the query request has been
  issued, the add-document request has been fulfilled before.
\<close>

theorem handleSubmit_upload_before_query:
  assumes "submit net s = (r, w)"
    and "\<not> loosely_null (file s)"
  shows "(\<exists>rest. filter is_fetch (events w) =
            FetchIssued (add_document_request (file s)) # rest)
       \<and> method (add_document_request (file s)) = ''POST''
       \<and> (\<forall>p. prefix p (events w) \<longrightarrow>
              \<not> (add_document_url \<in> set (in_flight p) \<and> query_url \<in> set (in_flight p)))
       \<and> (\<forall>p. prefix p (events w) \<longrightarrow> list_ex (issues query_url) p \<longrightarrow>
              list_ex (fulfils add_document_url) p)"
  using assms
  unfolding submit_def handleSubmit_def step_defs events_def all_prefixes_iff
  by (cases "file s")
     (auto simp: Let_def in_flight_def request_defs
           split: if_splits promise.splits sum.splits)

theorem handleSubmit_upload_before_query_witness:
  "\<not> loosely_null (file sample_state)
   \<and> hd (filter is_fetch (events (snd (submit network_ok sample_state)))) =
       FetchIssued (add_document_request (FFile sample_file))
   \<and> list_all
        (\<lambda>p. \<not> (add_document_url \<in> set (in_flight p) \<and> query_url \<in> set (in_flight p)))
        (prefixes (events (snd (submit network_ok sample_state))))
   \<and> list_all
        (\<lambda>p. list_ex (issues query_url) p \<longrightarrow> list_ex (fulfils add_document_url) p)
        (prefixes (events (snd (submit network_ok sample_state))))
   \<and> list_ex (issues query_url) (events (snd (submit network_ok sample_state)))"
proof -
  have h: "\<not> loosely_null (file sample_state)"
    by (simp add: sample_defs)
  have issued: "list_ex (issues query_url) (events (snd (submit network_ok sample_state)))"
    by (simp add: submit_def handleSubmit_def step_defs events_def sample_defs query_url_def)
  have selected: "file sample_state = FFile sample_file"
    by (simp add: sample_state_def)
  show ?thesis
    using h issued handleSubmit_upload_before_query [OF prod.collapse [symmetric] h, of network_ok]
    unfolding all_prefixes_iff selected
    by auto
qed

section \<open>The query request\<close>

text \<open>
  C7. A submission issues at most one request to the query endpoint (none only when a
  file is selected and its upload is not fulfilled). That request is a POST whose body is
  the text \<^verbatim>\<open>JSON.stringify\<close> writes for the object with the single property \<^verbatim>\<open>question\<close>.
  Whatever the question contains, a JSON reader reads that text back as exactly this one
  member, the question unchanged: nothing else is sent. So a top-k parameter, whatever
  its name other than \<^verbatim>\<open>question\<close>, is absent from the decoded body, and the service's fixed
  default applies.
\<close>

theorem handleSubmit_query_body:
  assumes \<open>submit net s = (r, w)\<close>
  shows \<open>requests_to query_url w =
          (if file_truthy (file s) \<and> \<not> is_fulfilled (net (add_document_request (file s)))
           then [] else [query_request (question s)])
       \<and> method (query_request (question s)) = ''POST''
       \<and> body (query_request (question s)) =
          TextBody (JSON_stringify [(ascii ''question'', question s)])
       \<and> JSON_stringify [(ascii ''question'', question s)] =
          ascii ''{"question":'' @ quote_json_string (question s) @ ascii ''}''
       \<and> decoded_body (body (query_request (question s))) =
          Some [(ascii ''question'', question s)]
       \<and> (k_name \<noteq> ascii ''question'' \<longrightarrow>
            map_option (effective_k default_k k_name read_k)
              (decoded_body (body (query_request (question s)))) = Some default_k)\<close>
proof -
  have decoded: \<open>decoded_body (body (query_request (question s))) =
      Some [(ascii ''question'', question s)]\<close>
    by (simp add: query_request_def decoded_body_def JSON_parse_stringify)
  have default: \<open>effective_k default_k k_name read_k [(ascii ''question'', question s)] = default_k\<close>
    if \<open>k_name \<noteq> ascii ''question''\<close>
    using that by (simp add: effective_k_def)
  show ?thesis
    using submit_query_requests [OF assms] default
    unfolding decoded
    by (simp add: query_request_def stringify_question)
qed

theorem handleSubmit_query_body_witness:
  \<open>requests_to query_url (snd (submit network_ok sample_tricky_state)) =
     [query_request sample_tricky_question]
   \<and> body (query_request sample_tricky_question) =
     TextBody (ascii ''{"question":"'' @ 0x5C # ascii ''",'' @ 0x5C # ascii ''"top_k''
       @ 0x5C # ascii ''":'' @ 0x5C # ascii ''"99'' @ 0x5C # ascii ''n''
       @ 0x5C # ascii ''ud800"}'')
   \<and> decoded_body (body (query_request sample_tricky_question)) =
     Some [(ascii ''question'', sample_tricky_question)]
   \<and> ascii ''top_k'' \<noteq> ascii ''question''
   \<and> map_option (effective_k 4 (ascii ''top_k'') (\<lambda>v. 99))
        (decoded_body (body (query_request sample_tricky_question))) = Some 4\<close>
proof -
  have name: \<open>ascii ''top_k'' \<noteq> ascii ''question''\<close>
    by (simp add: ascii_def)
  have state: \<open>question sample_tricky_state = sample_tricky_question\<close>
    \<open>file sample_tricky_state = FNull\<close>
    by (simp_all add: sample_tricky_state_def)
  have quoted: \<open>quote_json_string sample_tricky_question =
      ascii ''"'' @ 0x5C # ascii ''",'' @ 0x5C # ascii ''"top_k''
       @ 0x5C # ascii ''":'' @ 0x5C # ascii ''"99'' @ 0x5C # ascii ''n''
       @ 0x5C # ascii ''ud800"''\<close>
    by (simp add: sample_tricky_question_def quote_json_string_def quote_unit_def
        unicode_escape_def hex_digit_def is_leading_surrogate_def is_trailing_surrogate_def
        ascii_def)
  note checked =
    handleSubmit_query_body [OF prod.collapse [symmetric],
      of network_ok sample_tricky_state "ascii ''top_k''" 4 "\<lambda>v. 99", unfolded state]
  from checked have issued:
    \<open>requests_to query_url (snd (submit network_ok sample_tricky_state)) =
       [query_request sample_tricky_question]\<close>
    by simp
  from checked have sent:
    \<open>body (query_request sample_tricky_question) =
       TextBody (JSON_stringify [(ascii ''question'', sample_tricky_question)])\<close>
    by blast
  from checked have printed:
    \<open>JSON_stringify [(ascii ''question'', sample_tricky_question)] =
       ascii ''{"question":'' @ quote_json_string sample_tricky_question @ ascii ''}''\<close>
    by blast
  have spelled:
    \<open>ascii ''{"question":'' @ quote_json_string sample_tricky_question @ ascii ''}'' =
       ascii ''{"question":"'' @ 0x5C # ascii ''",'' @ 0x5C # ascii ''"top_k''
        @ 0x5C # ascii ''":'' @ 0x5C # ascii ''"99'' @ 0x5C # ascii ''n''
        @ 0x5C # ascii ''ud800"}''\<close>
    unfolding quoted by (simp add: ascii_def)
  have wire:
    \<open>body (query_request sample_tricky_question) =
       TextBody (ascii ''{"question":"'' @ 0x5C # ascii ''",'' @ 0x5C # ascii ''"top_k''
         @ 0x5C # ascii ''":'' @ 0x5C # ascii ''"99'' @ 0x5C # ascii ''n''
         @ 0x5C # ascii ''ud800"}'')\<close>
    by (simp only: sent printed spelled)
  from checked have decoded:
    \<open>decoded_body (body (query_request sample_tricky_question)) =
       Some [(ascii ''question'', sample_tricky_question)]\<close>
    by blast
  from checked name have default:
    \<open>map_option (effective_k 4 (ascii ''top_k'') (\<lambda>v. 99))
        (decoded_body (body (query_request sample_tricky_question))) = Some 4\<close>
    by blast
  show ?thesis
    by (intro conjI issued wire decoded name default)
qed

section \<open>The loading flag\<close>

text \<open>
  C9. In every invocation of \<^verbatim>\<open>handleSubmit\<close>, whatever the fetches do: at every moment
  at which a request is in flight, and at every network event (a fetch issued, fulfilled
  or rejected, the JSON body decoded or failing), \<^verbatim>\<open>loading\<close> is true; once the
  invocation has finished, by completing or by throwing, \<^verbatim>\<open>loading\<close> is false; and when
  every promise of the network settles, the invocation does finish, normally. The
  submit button is disabled by \<^verbatim>\<open>loading || !question.trim()\<close>, so after the invocation
  it is disabled only by a blank question.
\<close>

theorem handleSubmit_loading:
  assumes "submit net s = (r, w)"
  shows "(\<forall>p. prefix p (trace w) \<longrightarrow> p \<noteq> [] \<longrightarrow> in_flight (map fst p) \<noteq> [] \<longrightarrow>
             loading (snd (last p)))
       \<and> (\<forall>(ev, st) \<in> set (trace w). is_network ev \<longrightarrow> loading st)
       \<and> (r \<noteq> Suspend \<longrightarrow> \<not> loading (react w))
       \<and> (r \<noteq> Suspend \<longrightarrow> submit_disabled trim (react w) = (trim (question s) = []))
       \<and> (settles net \<longrightarrow> r = Normal ())"
  using assms
  unfolding submit_def handleSubmit_def step_defs events_def all_prefixes_iff settles_def
    submit_disabled_def
  by (auto simp: Let_def in_flight_def
           split: if_splits promise.splits sum.splits)

theorem handleSubmit_loading_witness:
  "settles network_ok
   \<and> fst (submit network_ok sample_state) = Normal ()
   \<and> \<not> loading (react (snd (submit network_ok sample_state)))
   \<and> list_all (\<lambda>(ev, st). is_network ev \<longrightarrow> loading st)
        (trace (snd (submit network_ok sample_state)))
   \<and> list_ex (\<lambda>(ev, st). is_network ev) (trace (snd (submit network_ok sample_state)))"
proof -
  have h: "settles network_ok"
    by (simp add: settles_def network_ok_def)
  have some: "list_ex (\<lambda>(ev, st). is_network ev) (trace (snd (submit network_ok sample_state)))"
    by (simp add: submit_def handleSubmit_def step_defs sample_defs)
  show ?thesis
    using h some
      handleSubmit_loading [OF prod.collapse [symmetric], of network_ok sample_state]
    by (simp add: list_all_iff)
qed

section \<open>The selected file\<close>

text \<open>
  C10. \<^verbatim>\<open>handleSubmit\<close> never changes the \<^verbatim>\<open>file\<close> state, neither at its end nor at any
  moment of the invocation. So when a file is selected and the file input is not changed,
  every submission of a session, whatever else happens in between, uploads exactly that
  file to the add-document endpoint and leaves it selected. \<^verbatim>\<open>handleFileChange\<close> stores
  the first file of the selection, and \<^verbatim>\<open>undefined\<close> when the selection is empty.
\<close>

theorem handleSubmit_keeps_file:
  "file (react (snd (submit net s))) = file s
   \<and> (\<forall>(ev, st) \<in> set (trace (snd (submit net s))). file st = file s)
   \<and> (file s = FFile f \<and> \<not> list_ex is_file_input es \<longrightarrow>
        (\<forall>w \<in> set (session es s). uploads w = [FormFile f] \<and> file (react w) = FFile f))
   \<and> handleFileChange (g # gs) s = s\<lparr>file := FFile g\<rparr>
   \<and> handleFileChange [] s = s\<lparr>file := FUndefined\<rparr>"
  using submit_file_unchanged [of net s] submit_trace_file_unchanged [of _ _ net s]
    session_same_file [of s f es]
  by (auto simp: handleFileChange_def)

theorem handleSubmit_keeps_file_witness:
  "file sample_state = FFile sample_file
   \<and> \<not> list_ex is_file_input [Submit network_ok, QuestionInput (ascii ''Fees?''), Submit network_down]
   \<and> list_all (\<lambda>w. uploads w = [FormFile sample_file] \<and> file (react w) = FFile sample_file)
        (session [Submit network_ok, QuestionInput (ascii ''Fees?''), Submit network_down] sample_state)
   \<and> length (session [Submit network_ok, QuestionInput (ascii ''Fees?''), Submit network_down]
                sample_state) = 2"
proof -
  have h: "file sample_state = FFile sample_file
     \<and> \<not> list_ex is_file_input [Submit network_ok, QuestionInput (ascii ''Fees?''), Submit network_down]"
    by (simp add: sample_state_def)
  show ?thesis
    using h handleSubmit_keeps_file [of network_ok sample_state sample_file
        "[Submit network_ok, QuestionInput (ascii ''Fees?''), Submit network_down]"]
    by (simp add: Let_def list_all_iff)
qed

section \<open>The two versions of the component\<close>

text \<open>
  C8. The two versions of \<^verbatim>\<open>App\<close> in the file have the same initial state and equal
  handlers: \<^verbatim>\<open>handleSubmit\<close> (so from every state and for every behaviour of the network
  both issue the same requests in the same order and make the same state updates),
  \<^verbatim>\<open>handleFileChange\<close> and the question box's \<^verbatim>\<open>onChange\<close>. What they render differs, and
  only in the \<^verbatim>\<open>className\<close> attributes.
\<close>

theorem versions_agree:
  "initial_state_v2 = initial_state
   \<and> handleSubmit_v2 = handleSubmit
   \<and> submit_v2 net s = submit net s
   \<and> handleFileChange_v2 = handleFileChange
   \<and> question_onChange_v2 = question_onChange
   \<and> strip_class (App_v2 trim s) = strip_class (App trim s)
   \<and> App_v2 trim s \<noteq> App trim s"
proof -
  have submit_eq: "handleSubmit_v2 = handleSubmit"
    by (intro ext) (simp add: handleSubmit_v2_def handleSubmit_def)
  have change_eq: "handleFileChange_v2 = handleFileChange"
    by (intro ext) (simp add: handleFileChange_v2_def handleFileChange_def)
  have question_eq: "question_onChange_v2 = question_onChange"
    by (intro ext) (simp add: question_onChange_v2_def question_onChange_def)
  have init_eq: "initial_state_v2 = initial_state"
    by (simp add: initial_state_v2_def initial_state_def)
  have view_eq: "strip_class (App_v2 trim s) = strip_class (App trim s)"
    by (simp add: App_v2_def App_def)
  have view_neq: "App_v2 trim s \<noteq> App trim s"
    by (simp add: App_v2_def App_def)
  show ?thesis
    using submit_eq change_eq question_eq init_eq view_eq view_neq
    by (simp add: submit_v2_def submit_def)
qed

theorem versions_agree_witness:
  "submit_v2 network_ok sample_state = submit network_ok sample_state
   \<and> strip_class (App_v2 id sample_state) = strip_class (App id sample_state)
   \<and> App_v2 id sample_state \<noteq> App id sample_state"
  using versions_agree [of network_ok sample_state id]
  by simp

section \<open>Ranking of retrieval results\<close>

lemma length_rank_insert: "length (rank_insert x ys) = Suc (length ys)"
  by (induction ys) simp_all

lemma length_rank: "length (rank xs) = length xs"
  by (induction xs) (simp_all add: length_rank_insert)

lemma set_rank_insert: "set (rank_insert x ys) = insert x (set ys)"
  by (induction ys) auto

lemma mset_rank_insert: "mset (rank_insert x ys) = add_mset x (mset ys)"
  by (induction ys) simp_all

lemma mset_rank: "mset (rank xs) = mset xs"
  by (induction xs) (simp_all add: mset_rank_insert)

lemma ranked_rank_insert:
  "sorted_wrt (\<lambda>a b. snd b \<le> snd a) ys \<Longrightarrow> sorted_wrt (\<lambda>a b. snd b \<le> snd a) (rank_insert x ys)"
proof (induction ys)
  case Nil
  then show ?case by simp
next
  case (Cons y ys)
  show ?case
  proof (cases "snd y \<le> snd x")
    case True
    have "snd z \<le> snd x" if "z \<in> set ys" for z
      using that Cons.prems True by (auto intro: order_trans)
    with True Cons.prems show ?thesis by auto
  next
    case False
    then have "snd x \<le> snd y" by simp
    with False Cons show ?thesis
      by (auto simp: set_rank_insert)
  qed
qed

lemma ranked_rank: "sorted_wrt (\<lambda>a b. snd b \<le> snd a) (rank xs)"
  by (induction xs) (simp_all add: ranked_rank_insert)

lemma filter_rank_insert:
  "filter (\<lambda>p. snd p = v) (rank_insert x ys) =
     (if snd x = v then x # filter (\<lambda>p. snd p = v) ys else filter (\<lambda>p. snd p = v) ys)"
  by (induction ys) auto

lemma filter_rank: "filter (\<lambda>p. snd p = v) (rank xs) = filter (\<lambda>p. snd p = v) xs"
  by (induction xs) (simp_all add: filter_rank_insert)

lemma ranked_take_drop:
  assumes "x \<in> set (take n (rank xs))" and "y \<in> set (drop n (rank xs))"
  shows "snd y \<le> snd x"
proof -
  have "sorted_wrt (\<lambda>a b. snd b \<le> snd a) (take n (rank xs) @ drop n (rank xs))"
    by (simp add: ranked_rank)
  with assms show ?thesis
    unfolding sorted_wrt_append by blast
qed

text \<open>
  C3. For every snapshot, query vector and \<open>k\<close>, whatever the fixed metric: the scores of
  the result of \<open>search\<close> are non-increasing by position; the result has at most \<open>k\<close>
  pairs, exactly \<open>k\<close> clamped to the number of chunks of the snapshot; for every score,
  the results of that score are the first-inserted chunks of that score, in insertion
  order; and the results are drawn from the snapshot, no chunk left out scoring higher
  than a result.
\<close>

theorem search_ranked:
  "non_increasing (map snd (search sim snap q k))
   \<and> length (search sim snap q k) \<le> k
   \<and> length (search sim snap q k) = min k (length snap)
   \<and> (\<forall>v. prefix (filter (\<lambda>p. snd p = v) (search sim snap q k))
                  (filter (\<lambda>p. snd p = v) (scored sim snap q)))
   \<and> (\<exists>rest. mset (search sim snap q k @ rest) = mset (scored sim snap q)
         \<and> (\<forall>x \<in> set (search sim snap q k). \<forall>y \<in> set rest. snd y \<le> snd x))"
proof -
  let ?ranked = "rank (scored sim snap q)"
  let ?n = "min k (length snap)"
  have len: "length ?ranked = length snap"
    by (simp add: length_rank scored_def)
  have "sorted_wrt (\<lambda>a b. snd b \<le> snd a) (take ?n ?ranked @ drop ?n ?ranked)"
    by (simp add: ranked_rank)
  then have "sorted_wrt (\<lambda>a b. snd b \<le> snd a) (take ?n ?ranked)"
    unfolding sorted_wrt_append by blast
  then have sorted: "non_increasing (map snd (search sim snap q k))"
    by (simp add: non_increasing_def search_def sorted_wrt_map)
  have length: "length (search sim snap q k) = min k (length snap)"
    by (simp add: search_def len)
  have ties: "prefix (filter (\<lambda>p. snd p = v) (search sim snap q k))
                     (filter (\<lambda>p. snd p = v) (scored sim snap q))" for v
  proof -
    have "prefix (filter (\<lambda>p. snd p = v) (take ?n ?ranked)) (filter (\<lambda>p. snd p = v) ?ranked)"
      by (rule filter_mono_prefix) (rule take_is_prefix)
    then show ?thesis
      by (simp add: search_def filter_rank)
  qed
  have "mset (search sim snap q k @ drop ?n ?ranked) = mset (scored sim snap q)"
    unfolding search_def by (simp add: mset_rank)
  moreover have "\<forall>x \<in> set (search sim snap q k). \<forall>y \<in> set (drop ?n ?ranked). snd y \<le> snd x"
    unfolding search_def by (blast intro: ranked_take_drop)
  ultimately have nearest: "\<exists>rest. mset (search sim snap q k @ rest) = mset (scored sim snap q)
         \<and> (\<forall>x \<in> set (search sim snap q k). \<forall>y \<in> set rest. snd y \<le> snd x)"
    by blast
  from sorted length ties nearest show ?thesis
    by simp
qed

theorem search_ranked_witness:
  "search sample_metric sample_snapshot 2 3 = [(''e'', 0), (''a'', - 1), (''c'', - 1)]
   \<and> non_increasing (map snd (search sample_metric sample_snapshot 2 3))
   \<and> length (search sample_metric sample_snapshot 2 9) = 5"
  using search_ranked [of sample_metric sample_snapshot 2 3]
    search_ranked [of sample_metric sample_snapshot 2 9]
  by (simp add: search_def scored_def sample_metric_def sample_snapshot_def)

end
